theory Spec2Isabelle
  imports Main "HOL-Library.Sublist" "HOL-Library.AList"
begin

section \<open>Values shared by the views\<close>

text \<open>
  The dashboard is a set of React components. Each component is embedded as a step
  function over its hooks' state: an event (a click, a timer, a server response) maps
  the state to the next state and to the list of effects the handler performs, in the
  order the source performs them. A handler that dereferences \<open>null\<close> raises
  \<open>TypeError\<close>; that is the \<open>Inl\<close> branch of a step.
\<close>

datatype http_method = GET | POST

text \<open>A JSON value, as far as the pages tell values apart; numbers are integers.\<close>

datatype json = JInt int | JStr string | JBool bool | JNull

datatype body =
    NoBody
  | FormData string                        \<comment> \<open>multipart form, field \<open>file\<close>\<close>
  | LeadData "(string \<times> string) list"       \<comment> \<open>the \<open>newLead\<close> object\<close>
  | StatusBody string                      \<comment> \<open>\<open>{ status }\<close>\<close>
  | SettingsBody "(string \<times> json) list"     \<comment> \<open>the \<open>callSettings\<close> object\<close>

record request =
  meth :: http_method
  url :: string
  payload :: body

datatype js_error = TypeError

text \<open>
  An axios error as the \<open>onError\<close> callbacks read it: \<open>err_detail\<close> is
  \<open>error.response?.data?.detail\<close> (\<open>None\<close> when any link of the optional chain is
  undefined, a string otherwise, as FastAPI's HTTPException sends it) and \<open>err_message\<close>
  is \<open>error.message\<close>.
\<close>

record axios_error =
  err_detail :: "string option"
  err_message :: string

text \<open>\<open>error.response?.data?.detail || error.message\<close>: the empty string is falsy.\<close>

definition error_text :: "axios_error \<Rightarrow> string" where
  "error_text e =
     (case err_detail e of
        None \<Rightarrow> err_message e
      | Some d \<Rightarrow> if d = [] then err_message e else d)"

datatype effect =
    Send request                 \<comment> \<open>a request through the \<open>api\<close> client\<close>
  | ToastSuccess string          \<comment> \<open>\<open>toast.success\<close>\<close>
  | ToastError string            \<comment> \<open>\<open>toast.error\<close>\<close>
  | SetTimeout nat string        \<comment> \<open>\<open>setTimeout\<close>: delay in ms, the lead id the callback confirms\<close>
  | OpenWindow string            \<comment> \<open>\<open>window.open\<close> and link clicks: browser navigation\<close>

text \<open>The \<open>useQuery\<close> calls: key, fetcher and \<open>refetchInterval\<close> (milliseconds).\<close>

record polling_query =
  queryKey :: string
  queryFn :: request
  refetchInterval :: nat

section \<open>Number formatting\<close>







subsection \<open>CallLogs: \<open>formatDuration\<close>\<close>

text \<open>
  \<^verbatim>\<open>
  const formatDuration = (seconds) => {
    if (!seconds) return 'N/A';
    const mins = Math.floor(seconds / 60);
    const secs = seconds % 60;
    return `${mins}:${secs.toString().padStart(2, '0')}`;
  };
  \<close>
  The argument is the \<open>call_duration\<close> field of a call log row: missing, \<open>null\<close> or a
  number of seconds.
\<close>

datatype duration_value = Undefined | Null | Seconds int


section \<open>Lead status vocabulary\<close>

text \<open>\<open>statusLabels\<close> of the leads page, in the order \<open>Object.entries\<close> lists it.\<close>

definition statusLabels :: "(string \<times> string) list" where
  "statusLabels =
     [(''pending'', ''Pending''),
      (''calling'', ''Calling''),
      (''confirmed'', ''Confirmed''),
      (''call_failed'', ''Call Failed''),
      (''not_interested'', ''Not Interested''),
      (''entry_in_progress'', ''Entry in Progress''),
      (''entered'', ''Entered''),
      (''entry_failed'', ''Entry Failed''),
      (''no_answer'', ''No Answer''),
      (''callback_requested'', ''Callback Requested'')]"

text \<open>
  The options of the Update Status \<open>Select\<close>: one \<open>MenuItem\<close> per entry of
  \<open>statusLabels\<close>, its value the key.
\<close>

definition statusSelectOptions :: "string list" where
  "statusSelectOptions = map fst statusLabels"

text \<open>
  The enumeration as the specification lists it (section 4.1, States), for comparison
  with the options the code offers.
\<close>

definition spec_lead_states :: "string list" where
  "spec_lead_states =
     [''pending'', ''calling'', ''confirmed'', ''call_failed'', ''not_interested'',
      ''no_answer'', ''callback_requested'', ''entry_in_progress'', ''entered'',
      ''entry_failed'']"

section \<open>Polling queries\<close>

definition api_get :: "string \<Rightarrow> request" where
  "api_get u = \<lparr>meth = GET, url = u, payload = NoBody\<rparr>"

definition api_post :: "string \<Rightarrow> body \<Rightarrow> request" where
  "api_post u b = \<lparr>meth = POST, url = u, payload = b\<rparr>"

text \<open>The leads page with the status dialog (\<open>refetchInterval: 3000\<close>).\<close>

definition Leads_query :: polling_query where
  "Leads_query = \<lparr>queryKey = ''leads'', queryFn = api_get ''/leads/'', refetchInterval = 3000\<rparr>"

text \<open>\<open>pages/Leads.js\<close> (\<open>refetchInterval: 5000\<close>).\<close>

definition LeadsJs_query :: polling_query where
  "LeadsJs_query = \<lparr>queryKey = ''leads'', queryFn = api_get ''/leads/'', refetchInterval = 5000\<rparr>"

text \<open>\<open>components/Layout.js\<close>.\<close>

definition Layout_query :: polling_query where
  "Layout_query =
     \<lparr>queryKey = ''agentStatus'', queryFn = api_get ''/agents/status'', refetchInterval = 5000\<rparr>"

text \<open>\<open>pages/Dashboard.js\<close>: the two statistics queries.\<close>

definition Dashboard_queries :: "polling_query list" where
  "Dashboard_queries =
     [\<lparr>queryKey = ''dashboardStats'', queryFn = api_get ''/stats/dashboard'',
        refetchInterval = 10000\<rparr>,
      \<lparr>queryKey = ''statusBreakdown'', queryFn = api_get ''/stats/status-breakdown'',
        refetchInterval = 10000\<rparr>]"

definition CallLogs_query :: polling_query where
  "CallLogs_query =
     \<lparr>queryKey = ''callLogs'', queryFn = api_get ''/call-logs/'', refetchInterval = 10000\<rparr>"

definition DataEntryLogs_query :: polling_query where
  "DataEntryLogs_query =
     \<lparr>queryKey = ''dataEntryLogs'', queryFn = api_get ''/data-entry-logs/'',
       refetchInterval = 10000\<rparr>"


section \<open>The leads page\<close>

text \<open>
  Two versions of the page are in the repository: \<open>pages/Leads.js\<close>, and a later one
  that adds the Make Call and Update Status actions, the automatic confirmation and a
  shorter polling period. Names of the later version carry the prefix \<open>Leads\<close>, those
  of \<open>pages/Leads.js\<close> the prefix \<open>LeadsJs\<close>; what the two files share is defined once.
\<close>

text \<open>
  A row of \<open>GET /leads/\<close>, as far as the handlers read it. \<open>lead_id\<close> is \<open>lead.id\<close> as
  a template literal renders it; the three flags are the truthiness of the fields of
  the same name.
\<close>

record lead =
  lead_id :: string
  lead_status :: string
  call_completed_at :: bool
  status_updated_after_call :: bool
  call_successful :: bool

text \<open>A call \<open>m.mutate(variables)\<close> of one of the \<open>useMutation\<close> hooks.\<close>

datatype mutation =
    uploadMutation string                       \<comment> \<open>\<open>file\<close>\<close>
  | addLeadMutation "(string \<times> string) list"    \<comment> \<open>\<open>leadData\<close>\<close>
  | makeCallMutation string                     \<comment> \<open>\<open>leadId\<close>\<close>
  | updateStatusMutation string string          \<comment> \<open>\<open>{ leadId, status }\<close>\<close>
  | markConfirmedMutation string                \<comment> \<open>\<open>leadId\<close>\<close>
  | retryCallMutation string                    \<comment> \<open>\<open>leadId\<close>\<close>
  | retryEntryMutation string                   \<comment> \<open>\<open>leadId\<close>\<close>

datatype hook = Upload | AddLead | MakeCall | UpdateStatus | MarkConfirmed | RetryCall | RetryEntry

fun hook_of :: "mutation \<Rightarrow> hook" where
  "hook_of (uploadMutation file) = Upload"
| "hook_of (addLeadMutation leadData) = AddLead"
| "hook_of (makeCallMutation leadId) = MakeCall"
| "hook_of (updateStatusMutation leadId status) = UpdateStatus"
| "hook_of (markConfirmedMutation leadId) = MarkConfirmed"
| "hook_of (retryCallMutation leadId) = RetryCall"
| "hook_of (retryEntryMutation leadId) = RetryEntry"

text \<open>The mutation functions: the request each hook sends.\<close>

fun mutationFn :: "mutation \<Rightarrow> request" where
  "mutationFn (uploadMutation file) = api_post ''/leads/import-csv/'' (FormData file)"
| "mutationFn (addLeadMutation leadData) = api_post ''/leads/'' (LeadData leadData)"
| "mutationFn (makeCallMutation leadId) = api_post (''/leads/'' @ leadId @ ''/make-call'') NoBody"
| "mutationFn (updateStatusMutation leadId status) =
     api_post (''/leads/'' @ leadId @ ''/status'') (StatusBody status)"
| "mutationFn (markConfirmedMutation leadId) =
     api_post (''/leads/'' @ leadId @ ''/mark-confirmed'') NoBody"
| "mutationFn (retryCallMutation leadId) = api_post (''/leads/'' @ leadId @ ''/retry-call'') NoBody"
| "mutationFn (retryEntryMutation leadId) =
     api_post (''/leads/'' @ leadId @ ''/retry-entry'') NoBody"

text \<open>The response of a mutation, as far as the \<open>onSuccess\<close> callbacks read it.\<close>

record response =
  data_message :: string
  data_call_successful :: bool

text \<open>
  The state of \<open>pages/Leads.js\<close>: the query data, the \<open>useState\<close> cells, and which
  mutation hooks report \<open>isLoading\<close>. \<open>actionMenuAnchor\<close> records whether the anchor
  element is set.
\<close>

record leads_js_state =
  leads :: "lead list option"
  selectedFile :: "string option"
  uploadDialogOpen :: bool
  addDialogOpen :: bool
  newLead :: "(string \<times> string) list"
  actionMenuAnchor :: bool
  selectedLead :: "lead option"
  isLoading :: "hook set"

text \<open>
  The later version adds the status dialog. \<open>timeouts\<close> is the browser's queue of
  pending \<open>setTimeout\<close> callbacks of the page, each confirming the lead id it holds.
\<close>

record leads_state = leads_js_state +
  statusUpdateDialogOpen :: bool
  selectedStatus :: string
  timeouts :: "string list"

definition emptyLead :: "(string \<times> string) list" where
  "emptyLead =
     [(''first_name'', []), (''last_name'', []), (''email'', []), (''phone'', []),
      (''address'', []), (''city'', []), (''state'', []), (''zip_code'', [])]"

definition LeadsJs_init :: leads_js_state where
  "LeadsJs_init =
     \<lparr>leads = None, selectedFile = None, uploadDialogOpen = False, addDialogOpen = False,
      newLead = emptyLead, actionMenuAnchor = False, selectedLead = None, isLoading = {}\<rparr>"

definition Leads_init :: leads_state where
  "Leads_init =
     \<lparr>leads = None, selectedFile = None, uploadDialogOpen = False, addDialogOpen = False,
      newLead = emptyLead, actionMenuAnchor = False, selectedLead = None, isLoading = {},
      statusUpdateDialogOpen = False, selectedStatus = [], timeouts = []\<rparr>"

datatype menu_item =
  MakeCallItem | RetryCallItem | RetryDataEntryItem | MarkConfirmedItem | UpdateStatusItem

datatype leads_event =
    Mount                                   \<comment> \<open>the page is mounted; the query cache is kept\<close>
  | RefetchIntervalElapsed                  \<comment> \<open>the \<open>refetchInterval\<close> timer\<close>
  | LeadsFetched "lead list"                \<comment> \<open>\<open>GET /leads/\<close> resolved\<close>
  | ClickImportCSV
  | ClickAddLead
  | CloseUploadDialog
  | CloseAddDialog
  | ChangeFile "string option"              \<comment> \<open>\<open>e.target.files[0]\<close>\<close>
  | ChangeNewLead string string             \<comment> \<open>field, \<open>e.target.value\<close>\<close>
  | ClickUpload
  | ClickAddLeadSubmit
  | ClickRowActions lead
  | CloseActionMenu
  | ClickMenuItem menu_item
  | ChangeSelectedStatus string
  | ClickUpdate
  | CloseStatusDialog
  | MutationSucceeded mutation response
  | MutationFailed mutation axios_error
  | TimeoutElapsed string                   \<comment> \<open>a \<open>setTimeout\<close> callback is due\<close>

subsection \<open>Handlers shared by both versions\<close>

definition mutate ::
  "mutation \<Rightarrow> 'a leads_js_state_scheme \<Rightarrow> 'a leads_js_state_scheme \<times> effect list" where
  "mutate m s = (s\<lparr>isLoading := insert (hook_of m) (isLoading s)\<rparr>, [Send (mutationFn m)])"

fun mutate_all ::
  "mutation list \<Rightarrow> 'a leads_js_state_scheme \<Rightarrow> 'a leads_js_state_scheme \<times> effect list" where
  "mutate_all [] s = (s, [])"
| "mutate_all (m # ms) s =
     (case mutate m s of (s1, e1) \<Rightarrow>
        (case mutate_all ms s1 of (s2, e2) \<Rightarrow> (s2, e1 @ e2)))"

text \<open>A mutation that settles no longer reports \<open>isLoading\<close>.\<close>

definition settle :: "mutation \<Rightarrow> 'a leads_js_state_scheme \<Rightarrow> 'a leads_js_state_scheme" where
  "settle m s = s\<lparr>isLoading := isLoading s - {hook_of m}\<rparr>"

text \<open>\<open>queryClient.invalidateQueries('leads')\<close> refetches the active query.\<close>

definition invalidateQueries_leads :: "effect list" where
  "invalidateQueries_leads = [Send (api_get ''/leads/'')]"

definition handleFileUpload ::
  "'a leads_js_state_scheme \<Rightarrow> 'a leads_js_state_scheme \<times> effect list" where
  "handleFileUpload s =
     (case selectedFile s of
        None \<Rightarrow> (s, [])
      | Some file \<Rightarrow> mutate (uploadMutation file) s)"

definition handleAddLead ::
  "'a leads_js_state_scheme \<Rightarrow> 'a leads_js_state_scheme \<times> effect list" where
  "handleAddLead s = mutate (addLeadMutation (newLead s)) s"

definition handleActionClick ::
  "lead \<Rightarrow> 'a leads_js_state_scheme \<Rightarrow> 'a leads_js_state_scheme" where
  "handleActionClick l s = s\<lparr>actionMenuAnchor := True, selectedLead := Some l\<rparr>"

definition handleActionClose :: "'a leads_js_state_scheme \<Rightarrow> 'a leads_js_state_scheme" where
  "handleActionClose s = s\<lparr>actionMenuAnchor := False, selectedLead := None\<rparr>"

text \<open>
  The \<open>onClick\<close> of the retry and confirm menu items:
  \<open>m.mutate(selectedLead.id); handleActionClose()\<close>. Reading \<open>.id\<close> of \<open>null\<close> raises.
\<close>

definition menu_mutate ::
  "(string \<Rightarrow> mutation) \<Rightarrow> 'a leads_js_state_scheme \<Rightarrow>
     js_error + ('a leads_js_state_scheme \<times> effect list)" where
  "menu_mutate m s =
     (case selectedLead s of
        None \<Rightarrow> Inl TypeError
      | Some l \<Rightarrow>
          (case mutate (m (lead_id l)) s of (s1, e1) \<Rightarrow> Inr (handleActionClose s1, e1)))"

text \<open>The text before the error detail in each \<open>onError\<close> toast (the same in both files).\<close>

fun onError_prefix :: "mutation \<Rightarrow> string" where
  "onError_prefix (uploadMutation file) = ''Upload failed: ''"
| "onError_prefix (addLeadMutation leadData) = ''Failed to add lead: ''"
| "onError_prefix (makeCallMutation leadId) = ''Failed to make call: ''"
| "onError_prefix (updateStatusMutation leadId status) = ''Failed to update status: ''"
| "onError_prefix (markConfirmedMutation leadId) = ''Failed to mark confirmed: ''"
| "onError_prefix (retryCallMutation leadId) = ''Failed to retry call: ''"
| "onError_prefix (retryEntryMutation leadId) = ''Failed to retry entry: ''"

definition onError :: "mutation \<Rightarrow> axios_error \<Rightarrow> effect list" where
  "onError m e = [ToastError (onError_prefix m @ error_text e)]"

subsection \<open>The later version: automatic confirmation, Make Call, Update Status\<close>

text \<open>
  \<^verbatim>\<open>
  useEffect(() => {
    if (leads) {
      const leadsNeedingUpdate = leads.filter(lead =>
        lead.status === 'calling' && lead.call_completed_at && !lead.status_updated_after_call);
      if (leadsNeedingUpdate.length > 0) {
        leadsNeedingUpdate.forEach(lead => {
          if (lead.call_successful) { markConfirmedMutation.mutate(lead.id); }
        });
      }
    }
  }, [leads]);
  \<close>
\<close>

definition leadsNeedingUpdate :: "lead list \<Rightarrow> lead list" where
  "leadsNeedingUpdate ls =
     filter (\<lambda>l. lead_status l = ''calling'' \<and> call_completed_at l \<and>
                 \<not> status_updated_after_call l) ls"

definition autoUpdateEffect :: "lead list option \<Rightarrow> mutation list" where
  "autoUpdateEffect data =
     (case data of
        None \<Rightarrow> []
      | Some ls \<Rightarrow>
          if length (leadsNeedingUpdate ls) > 0
          then map (\<lambda>l. markConfirmedMutation (lead_id l))
                 (filter call_successful (leadsNeedingUpdate ls))
          else [])"

fun Leads_onSuccess :: "mutation \<Rightarrow> response \<Rightarrow> leads_state \<Rightarrow> leads_state \<times> effect list" where
  "Leads_onSuccess (uploadMutation file) r s =
     (s\<lparr>uploadDialogOpen := False, selectedFile := None\<rparr>,
      [ToastSuccess (data_message r)] @ invalidateQueries_leads)"
| "Leads_onSuccess (addLeadMutation leadData) r s =
     (s\<lparr>addDialogOpen := False, newLead := emptyLead\<rparr>,
      [ToastSuccess ''Lead added successfully''] @ invalidateQueries_leads)"
| "Leads_onSuccess (makeCallMutation leadId) r s =
     (if data_call_successful r
      then (s\<lparr>timeouts := timeouts s @ [leadId]\<rparr>,
            [ToastSuccess ''Call initiated successfully''] @ invalidateQueries_leads
              @ [SetTimeout 2000 leadId])
      else (s, [ToastSuccess ''Call initiated successfully''] @ invalidateQueries_leads))"
| "Leads_onSuccess (updateStatusMutation leadId status) r s =
     (s\<lparr>statusUpdateDialogOpen := False\<rparr>,
      [ToastSuccess ''Status updated successfully''] @ invalidateQueries_leads)"
| "Leads_onSuccess (markConfirmedMutation leadId) r s =
     (s, [ToastSuccess ''Lead confirmed successfully''] @ invalidateQueries_leads)"
| "Leads_onSuccess (retryCallMutation leadId) r s =
     (s, [ToastSuccess ''Call retry initiated''] @ invalidateQueries_leads)"
| "Leads_onSuccess (retryEntryMutation leadId) r s =
     (s, [ToastSuccess ''Data entry retry initiated''] @ invalidateQueries_leads)"

text \<open>\<open>if (selectedLead && selectedStatus) updateStatusMutation.mutate(...)\<close>\<close>

definition handleStatusUpdate :: "leads_state \<Rightarrow> leads_state \<times> effect list" where
  "handleStatusUpdate s =
     (case selectedLead s of
        None \<Rightarrow> (s, [])
      | Some l \<Rightarrow>
          if selectedStatus s \<noteq> []
          then mutate (updateStatusMutation (lead_id l) (selectedStatus s)) s
          else (s, []))"

text \<open>\<open>setSelectedStatus(selectedLead?.status || '')\<close>, open the dialog, close the menu.\<close>

definition openStatusUpdateDialog :: "leads_state \<Rightarrow> leads_state" where
  "openStatusUpdateDialog s =
     s\<lparr>selectedStatus := (case selectedLead s of None \<Rightarrow> [] | Some l \<Rightarrow> lead_status l),
       statusUpdateDialogOpen := True,
       actionMenuAnchor := False\<rparr>"

text \<open>The \<open>disabled\<close> property of each item of the action menu.\<close>

fun Leads_disabled :: "menu_item \<Rightarrow> leads_state \<Rightarrow> bool" where
  "Leads_disabled MakeCallItem s =
     (MakeCall \<in> isLoading s \<or>
      (case selectedLead s of None \<Rightarrow> False | Some l \<Rightarrow> lead_status l = ''calling''))"
| "Leads_disabled RetryCallItem s = (RetryCall \<in> isLoading s)"
| "Leads_disabled RetryDataEntryItem s = (RetryEntry \<in> isLoading s)"
| "Leads_disabled MarkConfirmedItem s = (MarkConfirmed \<in> isLoading s)"
| "Leads_disabled UpdateStatusItem s = False"

fun Leads_onClick :: "menu_item \<Rightarrow> leads_state \<Rightarrow> js_error + (leads_state \<times> effect list)" where
  "Leads_onClick MakeCallItem s = menu_mutate makeCallMutation s"
| "Leads_onClick RetryCallItem s = menu_mutate retryCallMutation s"
| "Leads_onClick RetryDataEntryItem s = menu_mutate retryEntryMutation s"
| "Leads_onClick MarkConfirmedItem s = menu_mutate markConfirmedMutation s"
| "Leads_onClick UpdateStatusItem s = Inr (openStatusUpdateDialog s, [])"

text \<open>
  One event of the page. A control reacts only while it is displayed (its dialog or the
  menu is open) and not disabled. Responses and errors of mutations are accepted at any
  time: they are not matched against the requests in flight. The effect that depends
  on \<open>[leads]\<close> runs when the query data change (the query keeps its previous data
  when a response is structurally equal) and on mount.
\<close>

fun Leads_step :: "leads_state \<Rightarrow> leads_event \<Rightarrow> js_error + (leads_state \<times> effect list)" where
  "Leads_step s Mount =
     Inr (mutate_all (autoUpdateEffect (leads s))
            (Leads_init\<lparr>leads := leads s, timeouts := timeouts s\<rparr>))"
| "Leads_step s RefetchIntervalElapsed = Inr (s, [Send (queryFn Leads_query)])"
| "Leads_step s (LeadsFetched data) =
     (if leads s = Some data then Inr (s, [])
      else Inr (mutate_all (autoUpdateEffect (Some data)) (s\<lparr>leads := Some data\<rparr>)))"
| "Leads_step s ClickImportCSV = Inr (s\<lparr>uploadDialogOpen := True\<rparr>, [])"
| "Leads_step s ClickAddLead = Inr (s\<lparr>addDialogOpen := True\<rparr>, [])"
| "Leads_step s CloseUploadDialog = Inr (s\<lparr>uploadDialogOpen := False\<rparr>, [])"
| "Leads_step s CloseAddDialog = Inr (s\<lparr>addDialogOpen := False\<rparr>, [])"
| "Leads_step s (ChangeFile file) =
     (if uploadDialogOpen s then Inr (s\<lparr>selectedFile := file\<rparr>, []) else Inr (s, []))"
| "Leads_step s (ChangeNewLead field v) =
     (if addDialogOpen s then Inr (s\<lparr>newLead := AList.update field v (newLead s)\<rparr>, [])
      else Inr (s, []))"
| "Leads_step s ClickUpload =
     (if uploadDialogOpen s \<and> \<not> (selectedFile s = None \<or> Upload \<in> isLoading s)
      then Inr (handleFileUpload s) else Inr (s, []))"
| "Leads_step s ClickAddLeadSubmit =
     (if addDialogOpen s \<and> \<not> AddLead \<in> isLoading s
      then Inr (handleAddLead s) else Inr (s, []))"
| "Leads_step s (ClickRowActions l) =
     (if l \<in> set (case leads s of None \<Rightarrow> [] | Some ls \<Rightarrow> ls)
      then Inr (handleActionClick l s, []) else Inr (s, []))"
| "Leads_step s CloseActionMenu = Inr (handleActionClose s, [])"
| "Leads_step s (ClickMenuItem i) =
     (if actionMenuAnchor s \<and> \<not> Leads_disabled i s then Leads_onClick i s else Inr (s, []))"
| "Leads_step s (ChangeSelectedStatus v) =
     (if statusUpdateDialogOpen s \<and> v \<in> set statusSelectOptions
      then Inr (s\<lparr>selectedStatus := v\<rparr>, []) else Inr (s, []))"
| "Leads_step s ClickUpdate =
     (if statusUpdateDialogOpen s \<and> \<not> (UpdateStatus \<in> isLoading s \<or> selectedStatus s = [])
      then Inr (handleStatusUpdate s) else Inr (s, []))"
| "Leads_step s CloseStatusDialog = Inr (s\<lparr>statusUpdateDialogOpen := False\<rparr>, [])"
| "Leads_step s (MutationSucceeded m r) = Inr (Leads_onSuccess m r (settle m s))"
| "Leads_step s (MutationFailed m e) = Inr (settle m s, onError m e)"
| "Leads_step s (TimeoutElapsed leadId) =
     (if leadId \<in> set (timeouts s)
      then Inr (mutate (markConfirmedMutation leadId)
                  (s\<lparr>timeouts := remove1 leadId (timeouts s)\<rparr>))
      else Inr (s, []))"

subsection \<open>\<open>pages/Leads.js\<close>\<close>

text \<open>The hooks \<open>pages/Leads.js\<close> declares, and the items of its action menu.\<close>

definition LeadsJs_hooks :: "hook set" where
  "LeadsJs_hooks = {Upload, AddLead, RetryCall, RetryEntry, MarkConfirmed}"

definition LeadsJs_menu :: "menu_item list" where
  "LeadsJs_menu = [RetryCallItem, RetryDataEntryItem, MarkConfirmedItem]"

fun LeadsJs_onSuccess ::
  "mutation \<Rightarrow> response \<Rightarrow> leads_js_state \<Rightarrow> leads_js_state \<times> effect list" where
  "LeadsJs_onSuccess (uploadMutation file) r s =
     (s\<lparr>uploadDialogOpen := False, selectedFile := None\<rparr>,
      [ToastSuccess (data_message r)] @ invalidateQueries_leads)"
| "LeadsJs_onSuccess (addLeadMutation leadData) r s =
     (s\<lparr>addDialogOpen := False, newLead := emptyLead\<rparr>,
      [ToastSuccess ''Lead added successfully''] @ invalidateQueries_leads)"
| "LeadsJs_onSuccess (retryCallMutation leadId) r s =
     (s, [ToastSuccess ''Lead marked for call retry''] @ invalidateQueries_leads)"
| "LeadsJs_onSuccess (retryEntryMutation leadId) r s =
     (s, [ToastSuccess ''Lead marked for data entry retry''] @ invalidateQueries_leads)"
| "LeadsJs_onSuccess (markConfirmedMutation leadId) r s =
     (s, [ToastSuccess ''Lead marked as confirmed''] @ invalidateQueries_leads)"
| "LeadsJs_onSuccess (makeCallMutation leadId) r s = (s, [])"
| "LeadsJs_onSuccess (updateStatusMutation leadId status) r s = (s, [])"

fun LeadsJs_disabled :: "menu_item \<Rightarrow> leads_js_state \<Rightarrow> bool" where
  "LeadsJs_disabled RetryCallItem s = (RetryCall \<in> isLoading s)"
| "LeadsJs_disabled RetryDataEntryItem s = (RetryEntry \<in> isLoading s)"
| "LeadsJs_disabled MarkConfirmedItem s = (MarkConfirmed \<in> isLoading s)"
| "LeadsJs_disabled MakeCallItem s = True"
| "LeadsJs_disabled UpdateStatusItem s = True"

fun LeadsJs_onClick ::
  "menu_item \<Rightarrow> leads_js_state \<Rightarrow> js_error + (leads_js_state \<times> effect list)" where
  "LeadsJs_onClick RetryCallItem s = menu_mutate retryCallMutation s"
| "LeadsJs_onClick RetryDataEntryItem s = menu_mutate retryEntryMutation s"
| "LeadsJs_onClick MarkConfirmedItem s = menu_mutate markConfirmedMutation s"
| "LeadsJs_onClick MakeCallItem s = Inr (s, [])"
| "LeadsJs_onClick UpdateStatusItem s = Inr (s, [])"

text \<open>
  One event of \<open>pages/Leads.js\<close>. The page has no effect on the query data, no timer of
  its own and no status dialog: the events of controls and hooks it does not have
  leave the state as it is.
\<close>

fun LeadsJs_step ::
  "leads_js_state \<Rightarrow> leads_event \<Rightarrow> js_error + (leads_js_state \<times> effect list)" where
  "LeadsJs_step s Mount = Inr (LeadsJs_init\<lparr>leads := leads s\<rparr>, [])"
| "LeadsJs_step s RefetchIntervalElapsed = Inr (s, [Send (queryFn LeadsJs_query)])"
| "LeadsJs_step s (LeadsFetched data) = Inr (s\<lparr>leads := Some data\<rparr>, [])"
| "LeadsJs_step s ClickImportCSV = Inr (s\<lparr>uploadDialogOpen := True\<rparr>, [])"
| "LeadsJs_step s ClickAddLead = Inr (s\<lparr>addDialogOpen := True\<rparr>, [])"
| "LeadsJs_step s CloseUploadDialog = Inr (s\<lparr>uploadDialogOpen := False\<rparr>, [])"
| "LeadsJs_step s CloseAddDialog = Inr (s\<lparr>addDialogOpen := False\<rparr>, [])"
| "LeadsJs_step s (ChangeFile file) =
     (if uploadDialogOpen s then Inr (s\<lparr>selectedFile := file\<rparr>, []) else Inr (s, []))"
| "LeadsJs_step s (ChangeNewLead field v) =
     (if addDialogOpen s then Inr (s\<lparr>newLead := AList.update field v (newLead s)\<rparr>, [])
      else Inr (s, []))"
| "LeadsJs_step s ClickUpload =
     (if uploadDialogOpen s \<and> \<not> (selectedFile s = None \<or> Upload \<in> isLoading s)
      then Inr (handleFileUpload s) else Inr (s, []))"
| "LeadsJs_step s ClickAddLeadSubmit =
     (if addDialogOpen s \<and> \<not> AddLead \<in> isLoading s
      then Inr (handleAddLead s) else Inr (s, []))"
| "LeadsJs_step s (ClickRowActions l) =
     (if l \<in> set (case leads s of None \<Rightarrow> [] | Some ls \<Rightarrow> ls)
      then Inr (handleActionClick l s, []) else Inr (s, []))"
| "LeadsJs_step s CloseActionMenu = Inr (handleActionClose s, [])"
| "LeadsJs_step s (ClickMenuItem i) =
     (if actionMenuAnchor s \<and> i \<in> set LeadsJs_menu \<and> \<not> LeadsJs_disabled i s
      then LeadsJs_onClick i s else Inr (s, []))"
| "LeadsJs_step s (ChangeSelectedStatus v) = Inr (s, [])"
| "LeadsJs_step s ClickUpdate = Inr (s, [])"
| "LeadsJs_step s CloseStatusDialog = Inr (s, [])"
| "LeadsJs_step s (MutationSucceeded m r) =
     (if hook_of m \<in> LeadsJs_hooks then Inr (LeadsJs_onSuccess m r (settle m s))
      else Inr (s, []))"
| "LeadsJs_step s (MutationFailed m e) =
     (if hook_of m \<in> LeadsJs_hooks then Inr (settle m s, onError m e) else Inr (s, []))"
| "LeadsJs_step s (TimeoutElapsed leadId) = Inr (s, [])"

section \<open>The layout: agent status and the start/stop toggle\<close>

record agent_status =
  agents_running :: bool
  voice_agent_running :: bool
  data_entry_agent_running :: bool

datatype agents_mutation = startAgentsMutation | stopAgentsMutation

record layout_state =
  agentStatus :: "agent_status option"
  mobileOpen :: bool
  agentsLoading :: "agents_mutation set"

datatype layout_event =
    AgentStatusIntervalElapsed
  | AgentStatusFetched agent_status
  | ClickAgentToggle
  | ClickDrawerToggle
  | ClickNavigation string
  | AgentsSucceeded agents_mutation
  | AgentsFailed agents_mutation axios_error

fun agents_mutationFn :: "agents_mutation \<Rightarrow> request" where
  "agents_mutationFn startAgentsMutation = api_post ''/agents/start'' NoBody"
| "agents_mutationFn stopAgentsMutation = api_post ''/agents/stop'' NoBody"

fun agents_success_text :: "agents_mutation \<Rightarrow> string" where
  "agents_success_text startAgentsMutation = ''Agents started successfully''"
| "agents_success_text stopAgentsMutation = ''Agents stopped successfully''"

fun agents_error_prefix :: "agents_mutation \<Rightarrow> string" where
  "agents_error_prefix startAgentsMutation = ''Failed to start agents: ''"
| "agents_error_prefix stopAgentsMutation = ''Failed to stop agents: ''"

text \<open>
  \<open>if (agentStatus?.agents_running) stopAgentsMutation.mutate(); else
  startAgentsMutation.mutate();\<close>
\<close>

definition handleAgentToggle :: "layout_state \<Rightarrow> layout_state \<times> effect list" where
  "handleAgentToggle s =
     (let m = (if (case agentStatus s of None \<Rightarrow> False | Some a \<Rightarrow> agents_running a)
               then stopAgentsMutation else startAgentsMutation)
      in (s\<lparr>agentsLoading := insert m (agentsLoading s)\<rparr>, [Send (agents_mutationFn m)]))"

fun Layout_step :: "layout_state \<Rightarrow> layout_event \<Rightarrow> layout_state \<times> effect list" where
  "Layout_step s AgentStatusIntervalElapsed = (s, [Send (queryFn Layout_query)])"
| "Layout_step s (AgentStatusFetched a) = (s\<lparr>agentStatus := Some a\<rparr>, [])"
| "Layout_step s ClickAgentToggle =
     (if agentsLoading s = {} then handleAgentToggle s else (s, []))"
| "Layout_step s ClickDrawerToggle = (s\<lparr>mobileOpen := \<not> mobileOpen s\<rparr>, [])"
| "Layout_step s (ClickNavigation path) = (s\<lparr>mobileOpen := False\<rparr>, [])"
| "Layout_step s (AgentsSucceeded m) =
     (s\<lparr>agentsLoading := agentsLoading s - {m}\<rparr>,
      [ToastSuccess (agents_success_text m), Send (api_get ''/agents/status'')])"
| "Layout_step s (AgentsFailed m e) =
     (s\<lparr>agentsLoading := agentsLoading s - {m}\<rparr>,
      [ToastError (agents_error_prefix m @ error_text e)])"

section \<open>The settings page: call attempt caps\<close>

text \<open>
  \<open>parseInt(value, 10)\<close> on a string of one-byte characters: leading white space is
  skipped, a sign is read, then the longest run of decimal digits; \<open>None\<close> is \<open>NaN\<close>.
\<close>

definition is_whitespace :: "char \<Rightarrow> bool" where
  "is_whitespace c = (c \<in> set [CHR 0x09, CHR 0x0A, CHR 0x0B, CHR 0x0C, CHR 0x0D, CHR 0x20])"

definition is_digit :: "char \<Rightarrow> bool" where
  "is_digit c = (c \<in> set ''0123456789'')"

definition digit_value :: "char \<Rightarrow> nat" where
  "digit_value c = length (takeWhile (\<lambda>d. d \<noteq> c) ''0123456789'')"

definition parseInt :: "string \<Rightarrow> int option" where
  "parseInt s =
     (let t = dropWhile is_whitespace s;
          negative = (t \<noteq> [] \<and> hd t = CHR ''-'');
          u = (if t \<noteq> [] \<and> (hd t = CHR ''-'' \<or> hd t = CHR ''+'') then tl t else t);
          z = takeWhile is_digit u
      in if z = [] then None
         else Some ((if negative then - 1 else 1) *
                    int (foldl (\<lambda>a c. 10 * a + digit_value c) 0 z)))"

text \<open>\<open>parseInt(value, 10) || 0\<close>: \<open>NaN\<close> and \<open>0\<close> are falsy.\<close>

definition numValue :: "string \<Rightarrow> int" where
  "numValue v = (case parseInt v of None \<Rightarrow> 0 | Some n \<Rightarrow> if n = 0 then 0 else n)"

text \<open>
  \<open>handleCallSettingChange\<close> computes the object it hands to \<open>setCallSettings\<close> from the
  \<open>callSettings\<close> of the render it was created in: \<open>{...callSettings, [day]: numValue}\<close>.
\<close>

definition handleCallSettingChange ::
  "(string \<times> json) list \<Rightarrow> string \<Rightarrow> string \<Rightarrow> (string \<times> json) list" where
  "handleCallSettingChange cs day v = AList.update day (JInt (numValue v)) cs"

record snackbar_state =
  snack_open :: bool
  snack_message :: string
  snack_severity :: string

record settings_state =
  callSettings :: "(string \<times> json) list"
  loading :: bool
  snackbar :: snackbar_state


datatype settings_event =
    SettingsMount                                \<comment> \<open>\<open>useEffect(..., [])\<close>: \<open>fetchCallSettings()\<close>\<close>
  | CallSettingsFetched "(string \<times> json) list"   \<comment> \<open>\<open>response.data\<close> of the \<open>GET\<close>\<close>
  | CallSettingsFetchFailed axios_error
  | ChangeDay string string                      \<comment> \<open>the fields of day 1, day 2 and day 6+\<close>
  | ChangeDays3to5 string                        \<comment> \<open>the field of days 3-5\<close>
  | ClickSave
  | SaveSucceeded
  | SaveFailed axios_error
  | CloseSnackbar                                \<comment> \<open>\<open>onClose\<close>: after 6000 ms or by the user\<close>

text \<open>
  The field of days 3-5 calls \<open>handleCallSettingChange\<close> for \<open>day3\<close>, \<open>day4\<close> and
  \<open>day5\<close> in one handler. Each call spreads the \<open>callSettings\<close> of the same render
  and replaces the state, so the state set last stands.
\<close>

definition changeDays3to5 :: "string \<Rightarrow> settings_state \<Rightarrow> settings_state" where
  "changeDays3to5 v s =
     foldl (\<lambda>s' day. s'\<lparr>callSettings := handleCallSettingChange (callSettings s) day v\<rparr>) s
       [''day3'', ''day4'', ''day5'']"

fun Settings_step :: "settings_state \<Rightarrow> settings_event \<Rightarrow> settings_state \<times> effect list" where
  "Settings_step s SettingsMount =
     (s\<lparr>loading := True\<rparr>, [Send (api_get ''/settings/call-attempts'')])"
| "Settings_step s (CallSettingsFetched d) = (s\<lparr>callSettings := d, loading := False\<rparr>, [])"
| "Settings_step s (CallSettingsFetchFailed e) =
     (s\<lparr>snackbar := \<lparr>snack_open = True,
                       snack_message = ''Error loading settings: '' @ error_text e,
                       snack_severity = ''error''\<rparr>,
        loading := False\<rparr>, [])"
| "Settings_step s (ChangeDay day v) =
     (if day \<in> set [''day1'', ''day2'', ''day6'']
      then (s\<lparr>callSettings := handleCallSettingChange (callSettings s) day v\<rparr>, [])
      else (s, []))"
| "Settings_step s (ChangeDays3to5 v) = (changeDays3to5 v s, [])"
| "Settings_step s ClickSave =
     (if loading s then (s, [])
      else (s\<lparr>loading := True\<rparr>,
            [Send (api_post ''/settings/call-attempts'' (SettingsBody (callSettings s)))]))"
| "Settings_step s SaveSucceeded =
     (s\<lparr>snackbar := \<lparr>snack_open = True,
                       snack_message = ''Call attempt settings saved successfully!'',
                       snack_severity = ''success''\<rparr>,
        loading := False\<rparr>, [])"
| "Settings_step s (SaveFailed e) =
     (s\<lparr>snackbar := \<lparr>snack_open = True,
                       snack_message = ''Error saving settings: '' @ error_text e,
                       snack_severity = ''error''\<rparr>,
        loading := False\<rparr>, [])"
| "Settings_step s CloseSnackbar = (s\<lparr>snackbar := (snackbar s)\<lparr>snack_open := False\<rparr>\<rparr>, [])"







section \<open>Read-only views\<close>

text \<open>\<open>pages/Dashboard.js\<close>: two queries, no handler.\<close>

record dashboard_state =
  dashboardStats :: "(string \<times> int) list option"
  statusBreakdown :: "(string \<times> int) list option"

datatype dashboard_event =
    StatsIntervalElapsed
  | BreakdownIntervalElapsed
  | StatsFetched "(string \<times> int) list"
  | BreakdownFetched "(string \<times> int) list"

fun Dashboard_step :: "dashboard_state \<Rightarrow> dashboard_event \<Rightarrow> dashboard_state \<times> effect list" where
  "Dashboard_step s StatsIntervalElapsed = (s, [Send (queryFn (Dashboard_queries ! 0))])"
| "Dashboard_step s BreakdownIntervalElapsed = (s, [Send (queryFn (Dashboard_queries ! 1))])"
| "Dashboard_step s (StatsFetched d) = (s\<lparr>dashboardStats := Some d\<rparr>, [])"
| "Dashboard_step s (BreakdownFetched d) = (s\<lparr>statusBreakdown := Some d\<rparr>, [])"

text \<open>The call logs: the recording buttons open the recording in the browser.\<close>

record call_log =
  call_duration :: duration_value
  recording_url :: "string option"

datatype callLogs_event =
    CallLogsIntervalElapsed
  | CallLogsFetched "call_log list"
  | ClickPlayRecording call_log
  | ClickDownloadRecording call_log

fun CallLogs_step ::
  "call_log list option \<Rightarrow> callLogs_event \<Rightarrow> call_log list option \<times> effect list" where
  "CallLogs_step s CallLogsIntervalElapsed = (s, [Send (queryFn CallLogs_query)])"
| "CallLogs_step s (CallLogsFetched d) = (Some d, [])"
| "CallLogs_step s (ClickPlayRecording l) =
     (case recording_url l of None \<Rightarrow> (s, []) | Some u \<Rightarrow> (s, [OpenWindow u]))"
| "CallLogs_step s (ClickDownloadRecording l) =
     (case recording_url l of None \<Rightarrow> (s, []) | Some u \<Rightarrow> (s, [OpenWindow u]))"

text \<open>The data entry logs: the screenshot button opens \<open>/screenshots/${path}\<close>.\<close>

record entry_log =
  screenshot_path :: "string option"

datatype dataEntryLogs_event =
    DataEntryLogsIntervalElapsed
  | DataEntryLogsFetched "entry_log list"
  | ClickScreenshot entry_log

fun DataEntryLogs_step ::
  "entry_log list option \<Rightarrow> dataEntryLogs_event \<Rightarrow> entry_log list option \<times> effect list" where
  "DataEntryLogs_step s DataEntryLogsIntervalElapsed = (s, [Send (queryFn DataEntryLogs_query)])"
| "DataEntryLogs_step s (DataEntryLogsFetched d) = (Some d, [])"
| "DataEntryLogs_step s (ClickScreenshot l) =
     (case screenshot_path l of
        None \<Rightarrow> (s, [])
      | Some p \<Rightarrow> (s, [OpenWindow (''/screenshots/'' @ p)]))"

section \<open>The REST surface of the specification\<close>

text \<open>
  The endpoints the specification lists as the observed REST surface (section 6), for
  comparison with the requests the handlers send. \<open>{id}\<close> stands for any text.
\<close>

definition lead_route :: "string \<Rightarrow> string \<Rightarrow> bool" where
  "lead_route action u = (take 7 u = ''/leads/'' \<and> suffix action (drop 7 u))"

definition spec_rest_surface :: "request \<Rightarrow> bool" where
  "spec_rest_surface r =
     (meth r = GET \<and>
        url r \<in> set [''/leads/'', ''/call-logs/'', ''/data-entry-logs/'', ''/stats/dashboard'',
                      ''/stats/status-breakdown'', ''/agents/status'',
                      ''/settings/call-attempts''] \<or>
      meth r = POST \<and>
        (url r \<in> set [''/leads/'', ''/leads/import-csv/'', ''/agents/start'', ''/agents/stop'',
                       ''/settings/call-attempts''] \<or>
         lead_route ''/retry-call'' (url r) \<or>
         lead_route ''/retry-entry'' (url r) \<or>
         lead_route ''/mark-confirmed'' (url r) \<or>
         lead_route ''/status'' (url r)))"

text \<open>The requests among some effects.\<close>

fun requests :: "effect list \<Rightarrow> request list" where
  "requests [] = []"
| "requests (Send r # fs) = r # requests fs"
| "requests (f # fs) = requests fs"

text \<open>The one endpoint the later leads page calls beyond that list.\<close>

definition make_call_request :: "request \<Rightarrow> bool" where
  "make_call_request r = (meth r = POST \<and> lead_route ''/make-call'' (url r))"

text \<open>The two retry endpoints.\<close>

definition retry_call_request :: "request \<Rightarrow> bool" where
  "retry_call_request r = (meth r = POST \<and> lead_route ''/retry-call'' (url r))"

definition retry_entry_request :: "request \<Rightarrow> bool" where
  "retry_entry_request r = (meth r = POST \<and> lead_route ''/retry-entry'' (url r))"

section \<open>Runs of the leads page\<close>

text \<open>The effects of a step; a handler that raised performed none.\<close>

fun effects_of :: "js_error + ('s \<times> effect list) \<Rightarrow> effect list" where
  "effects_of (Inl x) = []"
| "effects_of (Inr (s, fs)) = fs"

text \<open>A sequence of events from a state: the final state and every effect, in order.\<close>

fun Leads_run :: "leads_state \<Rightarrow> leads_event list \<Rightarrow> js_error + (leads_state \<times> effect list)" where
  "Leads_run s [] = Inr (s, [])"
| "Leads_run s (e # es) =
     (case Leads_step s e of
        Inl x \<Rightarrow> Inl x
      | Inr (s1, f1) \<Rightarrow>
          (case Leads_run s1 es of
             Inl x \<Rightarrow> Inl x
           | Inr (s2, f2) \<Rightarrow> Inr (s2, f1 @ f2)))"

section \<open>Properties\<close>

subsection \<open>Number formatting\<close>






subsection \<open>Status vocabulary\<close>

text \<open>
  C7. The values offered by the Update Status dialog are exactly the ten states of the
  specification's enumeration: the same set, each offered once.
\<close>

theorem statusSelectOptions_exact:
  "set statusSelectOptions = set spec_lead_states \<and>
   distinct statusSelectOptions \<and> length statusSelectOptions = 10"
  by (simp add: statusSelectOptions_def statusLabels_def spec_lead_states_def insert_commute)

subsection \<open>Polling periods\<close>



subsection \<open>Effects of the shared handlers\<close>

declare mutationFn.simps [simp del]

lemma effects_of_Inr: "effects_of (Inr p) = snd p"
  by (cases p) simp

lemma mutate_all_effects: "snd (mutate_all ms s) = map (\<lambda>m. Send (mutationFn m)) ms"
proof (induction ms arbitrary: s)
  case Nil
  show ?case by simp
next
  case (Cons m ms)
  obtain s1 e1 where a: "mutate m s = (s1, e1)" by (cases "mutate m s")
  obtain s2 e2 where b: "mutate_all ms s1 = (s2, e2)" by (cases "mutate_all ms s1")
  from Cons.IH [of s1] b have "e2 = map (\<lambda>m. Send (mutationFn m)) ms" by simp
  moreover from a have "e1 = [Send (mutationFn m)]" by (simp add: mutate_def)
  ultimately show ?case using a b by simp
qed

lemma requests_Send_map: "requests (map (\<lambda>m. Send (f m)) ms) = map f ms"
  by (induction ms) simp_all

lemma menu_mutate_requests:
  "requests (effects_of (menu_mutate m s)) =
     (case selectedLead s of None \<Rightarrow> [] | Some l \<Rightarrow> [mutationFn (m (lead_id l))])"
  by (simp add: menu_mutate_def mutate_def split: option.splits)

lemma autoUpdateEffect_filter:
  "autoUpdateEffect (Some d) =
     map (\<lambda>l. markConfirmedMutation (lead_id l))
       (filter (\<lambda>l. lead_status l = ''calling'' \<and> call_completed_at l \<and>
                    \<not> status_updated_after_call l \<and> call_successful l) d)"
proof -
  have "filter call_successful (leadsNeedingUpdate d) =
          filter (\<lambda>l. lead_status l = ''calling'' \<and> call_completed_at l \<and>
                    \<not> status_updated_after_call l \<and> call_successful l) d"
    by (simp add: leadsNeedingUpdate_def conj_commute conj_left_commute)
  moreover have "leadsNeedingUpdate d = [] \<Longrightarrow> filter call_successful (leadsNeedingUpdate d) = []"
    by simp
  ultimately show ?thesis
    by (cases "leadsNeedingUpdate d = []") (simp_all add: autoUpdateEffect_def)
qed

subsection \<open>Routes\<close>

lemma suffix_own: "suffix a (i @ a)"
  by (simp add: suffix_def)

lemma mutationFn_surface:
  "spec_rest_surface (mutationFn m) \<or> make_call_request (mutationFn m)"
  by (cases m)
     (simp_all add: mutationFn.simps spec_rest_surface_def make_call_request_def api_post_def
        lead_route_def suffix_own)

lemma mutationFn_surface_LeadsJs:
  "hook_of m \<in> LeadsJs_hooks \<Longrightarrow> spec_rest_surface (mutationFn m)"
  by (cases m)
     (simp_all add: mutationFn.simps spec_rest_surface_def LeadsJs_hooks_def api_post_def
        lead_route_def suffix_own)

lemma get_leads_surface: "spec_rest_surface (api_get ''/leads/'')"
  by (simp add: spec_rest_surface_def api_get_def)

subsection \<open>Requests of each step\<close>

lemma mutations_within_surface:
  "list_all (\<lambda>r. spec_rest_surface r \<or> make_call_request r) (map mutationFn ms)"
  by (simp add: list_all_iff mutationFn_surface)

lemma Leads_onClick_requests:
  "list_all (\<lambda>r. spec_rest_surface r \<or> make_call_request r)
     (requests (effects_of (Leads_onClick i s)))"
  by (cases i) (simp_all add: menu_mutate_requests mutationFn_surface split: option.splits)

lemma Leads_onSuccess_requests:
  "requests (snd (Leads_onSuccess m r s)) = [api_get ''/leads/'']"
  by (cases m) (simp_all add: invalidateQueries_leads_def)

lemma Leads_step_requests:
  "list_all (\<lambda>r. spec_rest_surface r \<or> make_call_request r)
     (requests (effects_of (Leads_step s e)))"
proof (cases e)
  case Mount
  then show ?thesis
    by (simp add: effects_of_Inr mutate_all_effects requests_Send_map mutations_within_surface)
next
  case RefetchIntervalElapsed
  then show ?thesis by (simp add: Leads_query_def get_leads_surface)
next
  case (LeadsFetched d)
  then show ?thesis
    by (simp add: effects_of_Inr mutate_all_effects requests_Send_map mutations_within_surface)
next
  case ClickUpload
  then show ?thesis
    by (simp add: handleFileUpload_def mutate_def mutationFn_surface split: option.splits)
next
  case ClickAddLeadSubmit
  then show ?thesis by (simp add: handleAddLead_def mutate_def mutationFn_surface)
next
  case (ClickMenuItem i)
  then show ?thesis by (simp add: Leads_onClick_requests)
next
  case ClickUpdate
  then show ?thesis
    by (simp add: handleStatusUpdate_def mutate_def mutationFn_surface split: option.splits)
next
  case (MutationSucceeded m r)
  then show ?thesis
    by (simp add: effects_of_Inr Leads_onSuccess_requests get_leads_surface)
next
  case (MutationFailed m x)
  then show ?thesis by (simp add: onError_def)
next
  case (TimeoutElapsed i)
  then show ?thesis by (simp add: mutate_def mutationFn_surface)
qed simp_all

lemma LeadsJs_onClick_requests:
  "list_all spec_rest_surface (requests (effects_of (LeadsJs_onClick i s)))"
  by (cases i)
     (simp_all add: menu_mutate_requests mutationFn_surface_LeadsJs LeadsJs_hooks_def
        split: option.splits)

lemma LeadsJs_onSuccess_requests:
  "list_all spec_rest_surface (requests (snd (LeadsJs_onSuccess m r s)))"
  by (cases m) (simp_all add: invalidateQueries_leads_def get_leads_surface)

lemma LeadsJs_step_requests:
  "list_all spec_rest_surface (requests (effects_of (LeadsJs_step s e)))"
proof (cases e)
  case RefetchIntervalElapsed
  then show ?thesis by (simp add: LeadsJs_query_def get_leads_surface)
next
  case ClickUpload
  then show ?thesis
    by (simp add: handleFileUpload_def mutate_def mutationFn_surface_LeadsJs LeadsJs_hooks_def
          split: option.splits)
next
  case ClickAddLeadSubmit
  then show ?thesis
    by (simp add: handleAddLead_def mutate_def mutationFn_surface_LeadsJs LeadsJs_hooks_def)
next
  case (ClickMenuItem i)
  then show ?thesis by (simp add: LeadsJs_onClick_requests)
next
  case (MutationSucceeded m r)
  then show ?thesis by (simp add: effects_of_Inr LeadsJs_onSuccess_requests)
next
  case (MutationFailed m x)
  then show ?thesis by (simp add: onError_def)
qed simp_all

lemma Layout_step_requests: "list_all spec_rest_surface (requests (snd (Layout_step s e)))"
proof (cases e)
  case ClickAgentToggle
  then show ?thesis
    by (simp add: handleAgentToggle_def Let_def spec_rest_surface_def api_post_def)
qed (simp_all add: Layout_query_def spec_rest_surface_def api_get_def)

lemma Settings_step_requests: "list_all spec_rest_surface (requests (snd (Settings_step s e)))"
  by (cases e) (simp_all add: spec_rest_surface_def api_post_def api_get_def)

lemma Dashboard_step_requests: "list_all spec_rest_surface (requests (snd (Dashboard_step s e)))"
  by (cases e) (simp_all add: Dashboard_queries_def spec_rest_surface_def api_get_def)

lemma CallLogs_step_requests: "list_all spec_rest_surface (requests (snd (CallLogs_step s e)))"
  by (cases e)
     (simp_all add: CallLogs_query_def spec_rest_surface_def api_get_def split: option.splits)

lemma DataEntryLogs_step_requests:
  "list_all spec_rest_surface (requests (snd (DataEntryLogs_step s e)))"
  by (cases e)
     (simp_all add: DataEntryLogs_query_def spec_rest_surface_def api_get_def
        split: option.splits)

subsection \<open>Processing a poll response\<close>

text \<open>
  C1, as amended. Processing a poll response issues no request in the dashboard
  statistics, the call logs, the data entry logs, the layout's agent status and
  \<open>pages/Leads.js\<close>. In the later leads page, processing a response whose data differ
  from the data held issues one \<open>POST /leads/{id}/mark-confirmed\<close> for every lead with
  status \<open>calling\<close>, a truthy \<open>call_completed_at\<close>, a falsy
  \<open>status_updated_after_call\<close> and a truthy \<open>call_successful\<close>, in the order of the
  response, and nothing else.
\<close>

theorem poll_processing_effects:
  "snd (Dashboard_step ds (StatsFetched d1)) = [] \<and>
   snd (Dashboard_step ds (BreakdownFetched d2)) = [] \<and>
   snd (CallLogs_step cs (CallLogsFetched d3)) = [] \<and>
   snd (DataEntryLogs_step es (DataEntryLogsFetched d4)) = [] \<and>
   snd (Layout_step ls (AgentStatusFetched a)) = [] \<and>
   effects_of (LeadsJs_step js (LeadsFetched d)) = [] \<and>
   effects_of (Leads_step s (LeadsFetched d)) =
     (if leads s = Some d then []
      else map (\<lambda>l. Send (api_post (''/leads/'' @ lead_id l @ ''/mark-confirmed'') NoBody))
             (filter (\<lambda>l. lead_status l = ''calling'' \<and> call_completed_at l \<and>
                          \<not> status_updated_after_call l \<and> call_successful l) d))"
  by (simp add: effects_of_Inr mutate_all_effects autoUpdateEffect_filter mutationFn.simps
        comp_def)

text \<open>
  At a response with an entered lead and a calling lead, both with a completed,
  successful call: one request, for the calling lead.
\<close>

theorem poll_processing_effects_witness:
  "effects_of (Leads_step Leads_init (LeadsFetched
     [\<lparr>lead_id = ''7'', lead_status = ''entered'', call_completed_at = True,
       status_updated_after_call = False, call_successful = True\<rparr>,
      \<lparr>lead_id = ''8'', lead_status = ''calling'', call_completed_at = True,
       status_updated_after_call = False, call_successful = True\<rparr>])) =
   [Send (api_post ''/leads/8/mark-confirmed'' NoBody)]"
  using poll_processing_effects [where s = Leads_init and d =
     "[\<lparr>lead_id = ''7'', lead_status = ''entered'', call_completed_at = True,
       status_updated_after_call = False, call_successful = True\<rparr>,
      \<lparr>lead_id = ''8'', lead_status = ''calling'', call_completed_at = True,
       status_updated_after_call = False, call_successful = True\<rparr>]"]
  by (simp add: Leads_init_def del: Leads_step.simps)

text \<open>
  C1 as stated fails: from the initial state of the later leads page, processing a
  \<open>GET /leads/\<close> response that holds one calling lead with a completed, successful call
  issues a mutation request.
\<close>

theorem Leads_poll_issues_mutation:
  "requests (effects_of (Leads_step Leads_init (LeadsFetched
     [\<lparr>lead_id = ''7'', lead_status = ''calling'', call_completed_at = True,
       status_updated_after_call = False, call_successful = True\<rparr>]))) =
   [\<lparr>meth = POST, url = ''/leads/7/mark-confirmed'', payload = NoBody\<rparr>]"
  by (simp add: Leads_init_def autoUpdateEffect_def leadsNeedingUpdate_def mutate_def
        mutationFn.simps api_post_def)

subsection \<open>The endpoints the dashboard calls\<close>

text \<open>
  C2, as amended. Whatever the state and the event, every request a component sends
  through the API client is an endpoint of the specification's REST surface, or, in the
  later leads page only, \<open>POST /leads/{id}/make-call\<close>. (The recording and screenshot
  buttons of the log views open a browser window; they do not go through the client.)
\<close>

theorem requests_within_surface:
  "list_all (\<lambda>r. spec_rest_surface r \<or> make_call_request r)
     (requests (effects_of (Leads_step s e1))) \<and>
   list_all spec_rest_surface (requests (effects_of (LeadsJs_step js e2))) \<and>
   list_all spec_rest_surface (requests (snd (Layout_step ls e3))) \<and>
   list_all spec_rest_surface (requests (snd (Settings_step ss e4))) \<and>
   list_all spec_rest_surface (requests (snd (Dashboard_step ds e5))) \<and>
   list_all spec_rest_surface (requests (snd (CallLogs_step cs e6))) \<and>
   list_all spec_rest_surface (requests (snd (DataEntryLogs_step es e7)))"
  using Leads_step_requests LeadsJs_step_requests Layout_step_requests Settings_step_requests
    Dashboard_step_requests CallLogs_step_requests DataEntryLogs_step_requests
  by blast

text \<open>
  C2 as stated fails: the leads are fetched, the operator opens the action menu of
  lead 7 and chooses Make Call. The request is \<open>POST /leads/7/make-call\<close>, which the
  REST surface of the specification does not list.
\<close>

theorem make_call_outside_surface:
  "requests (effects_of (Leads_run Leads_init
      [LeadsFetched [\<lparr>lead_id = ''7'', lead_status = ''pending'', call_completed_at = False,
                      status_updated_after_call = False, call_successful = False\<rparr>],
       ClickRowActions \<lparr>lead_id = ''7'', lead_status = ''pending'', call_completed_at = False,
                      status_updated_after_call = False, call_successful = False\<rparr>,
       ClickMenuItem MakeCallItem])) =
     [\<lparr>meth = POST, url = ''/leads/7/make-call'', payload = NoBody\<rparr>] \<and>
   \<not> spec_rest_surface \<lparr>meth = POST, url = ''/leads/7/make-call'', payload = NoBody\<rparr>"
  by (simp add: Leads_init_def autoUpdateEffect_def leadsNeedingUpdate_def mutate_def
        mutationFn.simps api_post_def handleActionClick_def handleActionClose_def
        menu_mutate_def spec_rest_surface_def lead_route_def suffix_to_prefix)

subsection \<open>Mark Confirmed\<close>

text \<open>
  C3. With the action menu open on a lead \<open>l\<close>, of any status, the Mark Confirmed item
  is disabled exactly while the mark-confirmed mutation is loading, and clicking it
  otherwise sends \<open>POST /leads/{id}/mark-confirmed\<close> for \<open>l\<close>, in both versions of the
  page. No condition on \<open>lead_status l\<close> occurs.
\<close>

theorem mark_confirmed_any_status:
  assumes "actionMenuAnchor s" and "selectedLead s = Some l"
    and "actionMenuAnchor js" and "selectedLead js = Some l"
  shows "Leads_disabled MarkConfirmedItem s = (MarkConfirmed \<in> isLoading s) \<and>
         LeadsJs_disabled MarkConfirmedItem js = (MarkConfirmed \<in> isLoading js) \<and>
         effects_of (Leads_step s (ClickMenuItem MarkConfirmedItem)) =
           (if MarkConfirmed \<in> isLoading s then []
            else [Send (api_post (''/leads/'' @ lead_id l @ ''/mark-confirmed'') NoBody)]) \<and>
         effects_of (LeadsJs_step js (ClickMenuItem MarkConfirmedItem)) =
           (if MarkConfirmed \<in> isLoading js then []
            else [Send (api_post (''/leads/'' @ lead_id l @ ''/mark-confirmed'') NoBody)])"
  using assms
  by (simp add: menu_mutate_def mutate_def mutationFn.simps LeadsJs_menu_def)


text \<open>
  At a lead with status \<open>entered\<close> and no mutation loading, in both versions.
\<close>

theorem mark_confirmed_any_status_witness:
  "effects_of (Leads_step
      (Leads_init\<lparr>actionMenuAnchor := True,
         selectedLead := Some \<lparr>lead_id = ''7'', lead_status = ''entered'',
           call_completed_at = False, status_updated_after_call = False,
           call_successful = False\<rparr>\<rparr>)
      (ClickMenuItem MarkConfirmedItem)) =
     [Send (api_post ''/leads/7/mark-confirmed'' NoBody)] \<and>
   effects_of (LeadsJs_step
      (LeadsJs_init\<lparr>actionMenuAnchor := True,
         selectedLead := Some \<lparr>lead_id = ''7'', lead_status = ''entered'',
           call_completed_at = False, status_updated_after_call = False,
           call_successful = False\<rparr>\<rparr>)
      (ClickMenuItem MarkConfirmedItem)) =
     [Send (api_post ''/leads/7/mark-confirmed'' NoBody)]"
  using mark_confirmed_any_status [where
      s = "Leads_init\<lparr>actionMenuAnchor := True,
         selectedLead := Some \<lparr>lead_id = ''7'', lead_status = ''entered'',
           call_completed_at = False, status_updated_after_call = False,
           call_successful = False\<rparr>\<rparr>" and
      js = "LeadsJs_init\<lparr>actionMenuAnchor := True,
         selectedLead := Some \<lparr>lead_id = ''7'', lead_status = ''entered'',
           call_completed_at = False, status_updated_after_call = False,
           call_successful = False\<rparr>\<rparr>" and
      l = "\<lparr>lead_id = ''7'', lead_status = ''entered'',
           call_completed_at = False, status_updated_after_call = False,
           call_successful = False\<rparr>"]
  by (simp add: Leads_init_def LeadsJs_init_def del: Leads_step.simps LeadsJs_step.simps)

subsection \<open>Automatic confirmation\<close>

lemma Leads_fetched_requests:
  "requests (effects_of (Leads_step s (LeadsFetched d))) =
     map mutationFn (if leads s = Some d then [] else autoUpdateEffect (Some d))"
  by (simp add: effects_of_Inr mutate_all_effects requests_Send_map)

lemma Leads_mount_requests:
  "requests (effects_of (Leads_step s Mount)) = map mutationFn (autoUpdateEffect (leads s))"
  by (simp add: effects_of_Inr mutate_all_effects requests_Send_map)

lemma autoUpdateEffect_calling:
  assumes "m \<in> set (autoUpdateEffect data)"
  shows "\<exists>l \<in> set (case data of None \<Rightarrow> [] | Some ls \<Rightarrow> ls).
           lead_status l = ''calling'' \<and> m = markConfirmedMutation (lead_id l)"
proof (cases data)
  case None
  with assms show ?thesis by (simp add: autoUpdateEffect_def)
next
  case (Some d)
  with assms show ?thesis by (auto simp: autoUpdateEffect_filter)
qed




subsection \<open>Retries\<close>

lemma retry_call_mutationFn: "retry_call_request (mutationFn m) = (hook_of m = RetryCall)"
  by (cases m)
     (simp_all add: retry_call_request_def mutationFn.simps api_post_def lead_route_def
        suffix_own suffix_to_prefix)

lemma retry_entry_mutationFn: "retry_entry_request (mutationFn m) = (hook_of m = RetryEntry)"
  by (cases m)
     (simp_all add: retry_entry_request_def mutationFn.simps api_post_def lead_route_def
        suffix_own suffix_to_prefix)

lemma no_retry_get: "\<not> retry_call_request (api_get u) \<and> \<not> retry_entry_request (api_get u)"
  by (simp add: retry_call_request_def retry_entry_request_def api_get_def)

lemma autoUpdateEffect_hook: "m \<in> set (autoUpdateEffect data) \<Longrightarrow> hook_of m = MarkConfirmed"
  using autoUpdateEffect_calling [of m data] by auto

lemma menu_mutate_retry:
  assumes "r \<in> set (requests (effects_of (menu_mutate m s)))"
  shows "\<exists>i. r = mutationFn (m i)"
  using assms by (auto simp: menu_mutate_requests split: option.splits)

lemma Leads_step_retry:
  assumes "r \<in> set (requests (effects_of (Leads_step s e)))"
  shows "(retry_call_request r \<longrightarrow> e = ClickMenuItem RetryCallItem) \<and>
         (retry_entry_request r \<longrightarrow> e = ClickMenuItem RetryDataEntryItem)"
proof (cases e)
  case Mount
  with assms have "r \<in> set (map mutationFn (autoUpdateEffect (leads s)))"
    by (simp only: Leads_mount_requests)
  then show ?thesis
    by (auto simp: retry_call_mutationFn retry_entry_mutationFn dest: autoUpdateEffect_hook)
next
  case RefetchIntervalElapsed
  with assms show ?thesis by (simp add: Leads_query_def no_retry_get)
next
  case (LeadsFetched d)
  with assms
  have "r \<in> set (map mutationFn (if leads s = Some d then [] else autoUpdateEffect (Some d)))"
    by (simp only: Leads_fetched_requests)
  then show ?thesis
    by (auto simp: retry_call_mutationFn retry_entry_mutationFn split: if_splits
          dest: autoUpdateEffect_hook)
next
  case ClickUpload
  with assms show ?thesis
    by (auto simp: handleFileUpload_def mutate_def retry_call_mutationFn retry_entry_mutationFn
          split: option.splits if_splits)
next
  case ClickAddLeadSubmit
  with assms show ?thesis
    by (auto simp: handleAddLead_def mutate_def retry_call_mutationFn retry_entry_mutationFn
          split: if_splits)
next
  case (ClickMenuItem i)
  with assms show ?thesis
    by (cases i)
       (auto simp: retry_call_mutationFn retry_entry_mutationFn openStatusUpdateDialog_def
          split: if_splits dest!: menu_mutate_retry)
next
  case ClickUpdate
  with assms show ?thesis
    by (auto simp: handleStatusUpdate_def mutate_def retry_call_mutationFn
          retry_entry_mutationFn split: option.splits if_splits)
next
  case (MutationSucceeded m rsp)
  with assms show ?thesis
    by (simp add: effects_of_Inr Leads_onSuccess_requests no_retry_get)
next
  case (MutationFailed m x)
  with assms show ?thesis by (simp add: onError_def)
next
  case (TimeoutElapsed i)
  with assms show ?thesis
    by (auto simp: mutate_def retry_call_mutationFn retry_entry_mutationFn split: if_splits)
qed (use assms in \<open>simp_all split: if_splits\<close>)

lemma LeadsJs_onSuccess_requests_get:
  "r \<in> set (requests (snd (LeadsJs_onSuccess m rsp s))) \<Longrightarrow> r = api_get ''/leads/''"
  by (cases m) (simp_all add: invalidateQueries_leads_def)

lemma LeadsJs_step_retry:
  assumes "r \<in> set (requests (effects_of (LeadsJs_step s e)))"
  shows "(retry_call_request r \<longrightarrow> e = ClickMenuItem RetryCallItem) \<and>
         (retry_entry_request r \<longrightarrow> e = ClickMenuItem RetryDataEntryItem)"
proof (cases e)
  case RefetchIntervalElapsed
  with assms show ?thesis by (simp add: LeadsJs_query_def no_retry_get)
next
  case ClickUpload
  with assms show ?thesis
    by (auto simp: handleFileUpload_def mutate_def retry_call_mutationFn retry_entry_mutationFn
          split: option.splits if_splits)
next
  case ClickAddLeadSubmit
  with assms show ?thesis
    by (auto simp: handleAddLead_def mutate_def retry_call_mutationFn retry_entry_mutationFn
          split: if_splits)
next
  case (ClickMenuItem i)
  with assms show ?thesis
    by (cases i)
       (auto simp: retry_call_mutationFn retry_entry_mutationFn
          split: if_splits dest!: menu_mutate_retry)
next
  case (MutationSucceeded m rsp)
  with assms show ?thesis
    by (auto simp: effects_of_Inr no_retry_get split: if_splits
          dest!: LeadsJs_onSuccess_requests_get)
next
  case (MutationFailed m x)
  with assms show ?thesis by (simp add: onError_def split: if_splits)
qed (use assms in \<open>simp_all split: if_splits\<close>)

lemma other_views_no_retry:
  "list_all (\<lambda>r. \<not> retry_call_request r \<and> \<not> retry_entry_request r)
     (requests (snd (Layout_step ls e3))) \<and>
   list_all (\<lambda>r. \<not> retry_call_request r \<and> \<not> retry_entry_request r)
     (requests (snd (Settings_step ss e4))) \<and>
   list_all (\<lambda>r. \<not> retry_call_request r \<and> \<not> retry_entry_request r)
     (requests (snd (Dashboard_step ds e5))) \<and>
   list_all (\<lambda>r. \<not> retry_call_request r \<and> \<not> retry_entry_request r)
     (requests (snd (CallLogs_step cs e6))) \<and>
   list_all (\<lambda>r. \<not> retry_call_request r \<and> \<not> retry_entry_request r)
     (requests (snd (DataEntryLogs_step es e7)))"
proof (intro conjI)
  show "list_all (\<lambda>r. \<not> retry_call_request r \<and> \<not> retry_entry_request r)
     (requests (snd (Layout_step ls e3)))"
    by (cases e3)
       (simp_all add: handleAgentToggle_def Let_def Layout_query_def api_get_def
          retry_call_request_def retry_entry_request_def lead_route_def api_post_def)
  show "list_all (\<lambda>r. \<not> retry_call_request r \<and> \<not> retry_entry_request r)
     (requests (snd (Settings_step ss e4)))"
    by (cases e4)
       (simp_all add: api_get_def retry_call_request_def retry_entry_request_def
          lead_route_def api_post_def)
  show "list_all (\<lambda>r. \<not> retry_call_request r \<and> \<not> retry_entry_request r)
     (requests (snd (Dashboard_step ds e5)))"
    by (cases e5) (simp_all add: Dashboard_queries_def no_retry_get)
  show "list_all (\<lambda>r. \<not> retry_call_request r \<and> \<not> retry_entry_request r)
     (requests (snd (CallLogs_step cs e6)))"
    by (cases e6) (simp_all add: CallLogs_query_def no_retry_get split: option.splits)
  show "list_all (\<lambda>r. \<not> retry_call_request r \<and> \<not> retry_entry_request r)
     (requests (snd (DataEntryLogs_step es e7)))"
    by (cases e7) (simp_all add: DataEntryLogs_query_def no_retry_get split: option.splits)
qed

text \<open>
  C5. In both versions of the leads page, whatever the state, an event that sends a
  retry-call request is the click on the Retry Call item, and an event that sends a
  retry-entry request is the click on the Retry Data Entry item: no timer, poll
  response, mount, mutation result or other click sends one. The other components send
  no retry request at all.
\<close>

theorem retries_only_from_menu:
  "(\<forall>r \<in> set (requests (effects_of (Leads_step s e))).
      (retry_call_request r \<longrightarrow> e = ClickMenuItem RetryCallItem) \<and>
      (retry_entry_request r \<longrightarrow> e = ClickMenuItem RetryDataEntryItem)) \<and>
   (\<forall>r \<in> set (requests (effects_of (LeadsJs_step js e))).
      (retry_call_request r \<longrightarrow> e = ClickMenuItem RetryCallItem) \<and>
      (retry_entry_request r \<longrightarrow> e = ClickMenuItem RetryDataEntryItem)) \<and>
   list_all (\<lambda>r. \<not> retry_call_request r \<and> \<not> retry_entry_request r)
     (requests (snd (Layout_step ls e3)) @ requests (snd (Settings_step ss e4)) @
      requests (snd (Dashboard_step ds e5)) @ requests (snd (CallLogs_step cs e6)) @
      requests (snd (DataEntryLogs_step es e7)))"
  using Leads_step_retry LeadsJs_step_retry
    other_views_no_retry [of ls e3 ss e4 ds e5 cs e6 es e7]
  by (simp del: Leads_step.simps LeadsJs_step.simps Layout_step.simps Settings_step.simps
        Dashboard_step.simps CallLogs_step.simps DataEntryLogs_step.simps)

text \<open>
  At a due timer of the delayed confirmation: the request it sends is no retry. The
  click on Retry Call, for comparison, sends the retry-call request.
\<close>

theorem retries_only_from_menu_witness:
  "requests (effects_of (Leads_step (Leads_init\<lparr>timeouts := [''7'']\<rparr>) (TimeoutElapsed ''7''))) =
     [api_post ''/leads/7/mark-confirmed'' NoBody] \<and>
   \<not> retry_call_request (api_post ''/leads/7/mark-confirmed'' NoBody) \<and>
   \<not> retry_entry_request (api_post ''/leads/7/mark-confirmed'' NoBody) \<and>
   requests (effects_of (Leads_step
      (Leads_init\<lparr>actionMenuAnchor := True,
         selectedLead := Some \<lparr>lead_id = ''7'', lead_status = ''call_failed'',
           call_completed_at = True, status_updated_after_call = False,
           call_successful = False\<rparr>\<rparr>)
      (ClickMenuItem RetryCallItem))) =
     [api_post ''/leads/7/retry-call'' NoBody] \<and>
   retry_call_request (api_post ''/leads/7/retry-call'' NoBody)"
proof -
  let ?s = "Leads_init\<lparr>timeouts := [''7'']\<rparr>"
  have a: "requests (effects_of (Leads_step ?s (TimeoutElapsed ''7''))) =
             [api_post ''/leads/7/mark-confirmed'' NoBody]"
    by (simp add: Leads_init_def mutate_def mutationFn.simps)
  have "\<forall>r \<in> set (requests (effects_of (Leads_step ?s (TimeoutElapsed ''7'')))).
          (retry_call_request r \<longrightarrow> TimeoutElapsed ''7'' = ClickMenuItem RetryCallItem) \<and>
          (retry_entry_request r \<longrightarrow> TimeoutElapsed ''7'' = ClickMenuItem RetryDataEntryItem)"
    using retries_only_from_menu [where s = ?s and e = "TimeoutElapsed ''7''"] by blast
  with a have b: "\<not> retry_call_request (api_post ''/leads/7/mark-confirmed'' NoBody) \<and>
      \<not> retry_entry_request (api_post ''/leads/7/mark-confirmed'' NoBody)"
    by simp
  have c: "requests (effects_of (Leads_step
      (Leads_init\<lparr>actionMenuAnchor := True,
         selectedLead := Some \<lparr>lead_id = ''7'', lead_status = ''call_failed'',
           call_completed_at = True, status_updated_after_call = False,
           call_successful = False\<rparr>\<rparr>)
      (ClickMenuItem RetryCallItem))) =
     [api_post ''/leads/7/retry-call'' NoBody]"
    by (simp add: Leads_init_def menu_mutate_def mutate_def mutationFn.simps)
  have d: "retry_call_request (api_post ''/leads/7/retry-call'' NoBody)"
    by (simp add: retry_call_request_def api_post_def lead_route_def suffix_to_prefix)
  from a b c d show ?thesis by (simp del: Leads_step.simps)
qed

subsection \<open>Failed mutations\<close>




subsection \<open>The call attempt settings\<close>










end
